theory Spec2Isabelle
  imports
    Main
    "HOL-Library.Char_ord"
    "HOL-Library.List_Lexorder"
    "HOL-Library.Multiset"
    "HOL-Library.Sublist"
begin

section \<open>Conversation storage (src/storage/sqljsStorage.ts, class SqlJsKVStore)\<close>

text \<open>
  A \<open>MessageRecord\<close> (src/storage/types.ts) carries the chat role, the author's name, the
  content and an ISO-8601 timestamp, all strings; \<open>conversation_id\<close> and \<open>activity_id\<close> are
  optional. Strings are lists of characters; the order on them is the lexicographic order
  on character codes, which is how SQLite compares TEXT values under its default BINARY
  collation.
\<close>

record MessageRecord =
  role :: string
  name :: string
  content :: string
  timestamp :: string
  conversation_id :: "string option"
  activity_id :: "string option"

text \<open>
  One row of table \<open>conversations\<close>: six TEXT columns and the \<open>blob\<close>. The code stores
  \<open>JSON.stringify(message)\<close> in \<open>blob\<close> and every query returns \<open>JSON.parse(row.blob)\<close>; the
  model keeps the record itself, i.e. it takes the JSON round trip of a record of strings
  to be the identity.
\<close>

record row =
  col_conversation_id :: string
  col_role :: string
  col_name :: string
  col_content :: string
  col_activity_id :: string
  col_timestamp :: string
  blob :: MessageRecord

text \<open>
  The store is the field \<open>db\<close>: \<open>None\<close> is JavaScript's \<open>null\<close> (before \<open>initialize\<close>), \<open>Some rows\<close>
  the table in insertion (rowid) order. \<open>saveToFile\<close> only exports the table to disk and
  swallows its own errors, so it does not appear in the model.
\<close>

type_synonym SqlJsKVStore = "row list option"

datatype db_error = DatabaseNotInitialized | SqlSyntaxError | SqlDatatypeMismatch

text \<open>\<open>x || ""\<close> on an optional string.\<close>

definition or_empty :: "string option \<Rightarrow> string" where
  "or_empty x = (case x of None \<Rightarrow> [] | Some s \<Rightarrow> s)"

text \<open>The values bound by \<open>addMessages\<close> to the INSERT statement for one message.\<close>

definition insert_row :: "MessageRecord \<Rightarrow> row" where
  "insert_row message =
     \<lparr> col_conversation_id = or_empty (conversation_id message),
       col_role = role message,
       col_name = name message,
       col_content = content message,
       col_activity_id = or_empty (activity_id message),
       col_timestamp = timestamp message,
       blob = message \<rparr>"

definition addMessages :: "SqlJsKVStore \<Rightarrow> MessageRecord list \<Rightarrow> db_error + SqlJsKVStore" where
  "addMessages db messages =
     (case db of
        None \<Rightarrow> Inl DatabaseNotInitialized
      | Some rows \<Rightarrow> Inr (Some (rows @ map insert_row messages)))"

text \<open>
  \<open>SELECT blob ... WHERE p ORDER BY timestamp ASC\<close>: the rows satisfying \<open>p\<close>, sorted by the
  timestamp column. Rows with equal timestamps stay in insertion order, as sql.js returns
  them; no theorem below depends on the order among equal timestamps.
\<close>

definition select_asc :: "(row \<Rightarrow> bool) \<Rightarrow> row list \<Rightarrow> MessageRecord list" where
  "select_asc p rows = map blob (sort_key col_timestamp (filter p rows))"

definition get :: "SqlJsKVStore \<Rightarrow> string \<Rightarrow> db_error + MessageRecord list" where
  "get db conversationId =
     (case db of
        None \<Rightarrow> Inl DatabaseNotInitialized
      | Some rows \<Rightarrow> Inr (select_asc (\<lambda>r. col_conversation_id r = conversationId) rows))"

definition getMessagesByTimeRange ::
  "SqlJsKVStore \<Rightarrow> string \<Rightarrow> string \<Rightarrow> string \<Rightarrow> db_error + MessageRecord list" where
  "getMessagesByTimeRange db conversationId startTime endTime =
     (case db of
        None \<Rightarrow> Inl DatabaseNotInitialized
      | Some rows \<Rightarrow>
          Inr (select_asc (\<lambda>r. col_conversation_id r = conversationId
                              \<and> startTime \<le> col_timestamp r \<and> col_timestamp r \<le> endTime) rows))"

text \<open>
  \<open>Array.prototype.slice(start)\<close> for an integral \<open>start\<close>: a negative start counts from the
  end and is clamped at 0, a non-negative one is clamped at the length.
\<close>

definition slice :: "'a list \<Rightarrow> int \<Rightarrow> 'a list" where
  "slice xs start =
     (let len = int (length xs);
          k = (if start < 0 then max (len + start) 0 else min start len)
      in drop (nat k) xs)"

text \<open>
  \<open>getRecentMessages(conversationId, limit = 10)\<close> returns \<open>this.get(...).slice(-limit)\<close>; an
  omitted limit is \<open>None\<close>. Limits are integers here (JavaScript would truncate a fraction).
\<close>

definition getRecentMessages ::
  "SqlJsKVStore \<Rightarrow> string \<Rightarrow> int option \<Rightarrow> db_error + MessageRecord list" where
  "getRecentMessages db conversationId limit =
     (case get db conversationId of
        Inl e \<Rightarrow> Inl e
      | Inr messages \<Rightarrow> Inr (slice messages (- (case limit of None \<Rightarrow> 10 | Some l \<Rightarrow> l))))"

definition clearConversation :: "SqlJsKVStore \<Rightarrow> string \<Rightarrow> db_error + SqlJsKVStore" where
  "clearConversation db conversationId =
     (case db of
        None \<Rightarrow> Inl DatabaseNotInitialized
      | Some rows \<Rightarrow> Inr (Some (filter (\<lambda>r. col_conversation_id r \<noteq> conversationId) rows)))"

definition countMessages :: "SqlJsKVStore \<Rightarrow> string \<Rightarrow> db_error + nat" where
  "countMessages db conversationId =
     (case db of
        None \<Rightarrow> Inl DatabaseNotInitialized
      | Some rows \<Rightarrow> Inr (length (filter (\<lambda>r. col_conversation_id r = conversationId) rows)))"

text \<open>
  The case folding of SQLite's \<open>LIKE\<close>: the ASCII letters only. Characters of this model are
  bytes, a string outside ASCII is its UTF-8 encoding.
\<close>

definition lower :: "char \<Rightarrow> char" where
  "lower c = (if CHR ''A'' \<le> c \<and> c \<le> CHR ''Z'' then char_of (of_char c + (32::nat)) else c)"

definition is_ascii :: "char \<Rightarrow> bool" where
  "is_ascii c = ((of_char c :: nat) < 128)"

text \<open>
  \<open>String.prototype.toLowerCase\<close> folds every letter of Unicode. On a string of ASCII
  characters that is the folding of the letters A to Z; what it does to any other string is
  the parameter \<open>unicode\<close>.
\<close>

definition toLowerCase :: "(string \<Rightarrow> string) \<Rightarrow> string \<Rightarrow> string" where
  "toLowerCase unicode s = (if list_all is_ascii s then map lower s else unicode s)"

text \<open>
  SQLite's \<open>pattern LIKE text\<close> without an ESCAPE clause: \<open>%\<close> matches any run of
  characters, \<open>_\<close> any one character, every other character itself up to ASCII case.
  First argument: the pattern. (On text outside ASCII, \<open>_\<close> matches one byte here and one
  UTF-8 character in SQLite; the theorems below are about patterns without \<open>_\<close>.)
\<close>

fun like :: "string \<Rightarrow> string \<Rightarrow> bool" where
  "like [] s = (s = [])"
| "like (p # ps) [] = (p = CHR ''%'' \<and> like ps [])"
| "like (p # ps) (c # cs) =
     (if p = CHR ''%'' then like ps (c # cs) \<or> like (p # ps) cs
      else (p = CHR ''_'' \<or> lower p = lower c) \<and> like ps cs)"

text \<open>
  \<open>LIMIT n\<close>: a negative \<open>n\<close> means no limit in SQLite. sql.js binds a number that is not
  a 32-bit integer as a double, and SQLite accepts a double as a limit only when it converts
  to a 64-bit integer strictly between the least and the greatest one; otherwise the
  statement fails with \<open>datatype mismatch\<close>, whether or not a row matches.
\<close>

definition limit_accepted :: "int \<Rightarrow> bool" where
  "limit_accepted n = (- (2 ^ 63) < n \<and> n < 2 ^ 63)"

definition sql_limit :: "int \<Rightarrow> 'a list \<Rightarrow> 'a list" where
  "sql_limit n xs = (if n < 0 then xs else take (nat n) xs)"

text \<open>
  \<open>getFilteredMessages\<close> builds the statement
  \<^verbatim>\<open>SELECT blob FROM conversations WHERE conversation_id = ? AND timestamp >= ? AND
  timestamp <= ? AND (content LIKE ? OR ...) [AND (name LIKE ? OR ...)]
  ORDER BY timestamp DESC LIMIT ?\<close>
  with one \<open>content LIKE ?\<close> per keyword, bound to \<open>%keyword.toLowerCase()%\<close>, and, only when
  \<open>participants\<close> is given and not empty, one \<open>name LIKE ?\<close> per participant. With no keyword
  the WHERE clause contains \<open>()\<close>, which SQLite rejects when the statement is prepared.
  The limit is \<open>maxResults && typeof maxResults === "number" ? maxResults : 5\<close>: an absent
  \<open>maxResults\<close> and the falsy number 0 both give 5. Limits are integers here. Rows with
  equal timestamps come back in insertion order.
\<close>

definition like_pattern :: "(string \<Rightarrow> string) \<Rightarrow> string \<Rightarrow> string" where
  "like_pattern unicode k = ''%'' @ toLowerCase unicode k @ ''%''"

definition effective_limit :: "int option \<Rightarrow> int" where
  "effective_limit maxResults = (case maxResults of None \<Rightarrow> 5 | Some n \<Rightarrow> if n = 0 then 5 else n)"

definition getFilteredMessages ::
  "(string \<Rightarrow> string) \<Rightarrow> SqlJsKVStore \<Rightarrow> string \<Rightarrow> string list \<Rightarrow> string \<Rightarrow> string
     \<Rightarrow> string list option \<Rightarrow> int option \<Rightarrow> db_error + MessageRecord list" where
  "getFilteredMessages unicode db conversationId keywords startTime endTime participants maxResults =
     (case db of
        None \<Rightarrow> Inl DatabaseNotInitialized
      | Some rows \<Rightarrow>
          if keywords = [] then Inl SqlSyntaxError
          else if \<not> limit_accepted (effective_limit maxResults) then Inl SqlDatatypeMismatch
          else
            let names = (case participants of None \<Rightarrow> [] | Some ps \<Rightarrow> ps);
                matching = filter (\<lambda>r. col_conversation_id r = conversationId
                                     \<and> startTime \<le> col_timestamp r \<and> col_timestamp r \<le> endTime
                                     \<and> list_ex (\<lambda>k. like (like_pattern unicode k) (col_content r)) keywords
                                     \<and> (names = [] \<or>
                                          list_ex (\<lambda>p. like (like_pattern unicode p) (col_name r)) names))
                                 rows
            in Inr (map blob (sql_limit (effective_limit maxResults)
                                (rev (sort_key col_timestamp (rev matching))))))"



text \<open>A record of conversation \<open>conv\<close>, for the concrete instances below.\<close>

definition sample :: "string \<Rightarrow> string \<Rightarrow> string \<Rightarrow> MessageRecord" where
  "sample author text time =
     \<lparr> role = ''user'', name = author, content = text, timestamp = time,
       conversation_id = Some ''conv'', activity_id = None \<rparr>"


section \<open>Graph client (src/services/graphClient.ts, class GraphClient)\<close>

text \<open>
  Instants are integers, milliseconds since the epoch. A JavaScript \<open>Date\<close> holds a time
  value or NaN (an invalid date): \<open>None\<close> is the invalid date. \<open>new Date(v)\<close> is invalid when
  \<open>v\<close> is outside the range of 8.64e15 ms around the epoch.
\<close>

type_synonym date = "int option"

definition new_Date :: "int \<Rightarrow> date" where
  "new_Date v = (if \<bar>v\<bar> \<le> 8640000000000000 then Some v else None)"

text \<open>
  What an \<open>await\<close> can throw in this class: an \<open>Error\<close> with its message, the \<open>SyntaxError\<close> of
  \<open>response.json()\<close> on a body that is not JSON, or the value \<open>null\<close> (the initial
  \<open>lastError\<close> of the retrying revision).
\<close>

datatype failure = Failure string | JsonSyntaxError | ThrownNull

text \<open>
  The token cache: the fields \<open>accessToken\<close> and \<open>tokenExpiry\<close>, both initially \<open>null\<close>.
\<close>

record GraphClient =
  accessToken :: "string option"
  tokenExpiry :: "date option"

text \<open>
  The outcome of \<open>msalClient.acquireTokenByClientCredential\<close>: it throws, it resolves to
  \<open>null\<close>, or it resolves to a result with an \<open>accessToken\<close> and an \<open>expiresOn\<close> date (which
  may be \<open>null\<close>): the instant at which the provider lets the token expire.
\<close>

datatype acquire_result = AcquireThrows string | AcquireNull | AuthResult string "date option"

definition cached_valid :: "GraphClient \<Rightarrow> int \<Rightarrow> bool" where
  "cached_valid client now =
     (case accessToken client of
        None \<Rightarrow> False
      | Some tok \<Rightarrow>
          tok \<noteq> [] \<and>
          (case tokenExpiry client of
             None \<Rightarrow> False
           | Some None \<Rightarrow> False
           | Some (Some expiry) \<Rightarrow> now < expiry))"

text \<open>\<open>result.expiresOn?.getTime() || 3600000\<close>: \<open>undefined\<close>, NaN and 0 are falsy.\<close>

definition expires_or_default :: "date option \<Rightarrow> int" where
  "expires_or_default expiresOn =
     (case expiresOn of
        Some (Some t) \<Rightarrow> if t = 0 then 3600000 else t
      | _ \<Rightarrow> 3600000)"

text \<open>
  \<open>getAccessToken\<close>, called at instant \<open>now\<close> (the \<open>new Date()\<close> of the cache test); \<open>msal\<close> is
  what the identity provider answers if it is asked, \<open>now_acquired\<close> the \<open>Date.now()\<close> read
  after that answer. The result is the returned token or the thrown error, whether the
  provider was asked, and the client afterwards. Logging is left out.
\<close>

definition getAccessToken ::
  "GraphClient \<Rightarrow> int \<Rightarrow> acquire_result \<Rightarrow> int \<Rightarrow> ((failure + string) \<times> bool) \<times> GraphClient" where
  "getAccessToken client now msal now_acquired =
     (case (if cached_valid client now then accessToken client else None) of
        Some cached \<Rightarrow> ((Inr cached, False), client)
      | None \<Rightarrow>
          (case msal of
             AcquireThrows e \<Rightarrow> ((Inl (Failure e), True), client)
           | AcquireNull \<Rightarrow> ((Inl (Failure ''Failed to acquire access token''), True), client)
           | AuthResult tok expiresOn \<Rightarrow>
               if tok = [] then ((Inl (Failure ''Failed to acquire access token''), True), client)
               else ((Inr tok, True),
                     client\<lparr> accessToken := Some tok,
                             tokenExpiry :=
                               Some (new_Date (now_acquired + expires_or_default expiresOn - 300000)) \<rparr>)))"

text \<open>JSON values, as far as the client handles them; \<open>{}\<close> is \<open>JObject []\<close>.\<close>

datatype json =
  JNull | JBool bool | JNumber int | JString string | JArray "json list"
  | JObject "(string \<times> json) list"

text \<open>
  A request as \<open>fetch\<close> receives it, and a response as the client reads it: the status, the
  body as text (\<open>response.text()\<close>), and the body parsed as JSON, \<open>None\<close> when it is not JSON.
  \<open>response.json()\<close> throws a \<open>SyntaxError\<close> on such a body, and on the empty body.
\<close>

record request =
  http_method :: string
  url :: string
  authorization :: string
  if_match :: "string option"
  request_body :: "json option"

record response =
  status :: nat
  body_text :: string
  body_json :: "json option"

definition ok :: "response \<Rightarrow> bool" where
  "ok r = (200 \<le> status r \<and> status r \<le> 299)"

definition response_json :: "response \<Rightarrow> failure + json" where
  "response_json r =
     (if body_text r = [] then Inl JsonSyntaxError
      else case body_json r of None \<Rightarrow> Inl JsonSyntaxError | Some j \<Rightarrow> Inr j)"

text \<open>
  \<open>fetch\<close> rejects (a network failure, with its message) or resolves to a response. The
  network is a function of the number of the call (1 for the first \<open>fetch\<close> of an
  operation) and the request.
\<close>

datatype fetch_result = Rejects string | Resolves response

type_synonym network = "nat \<Rightarrow> request \<Rightarrow> fetch_result"

text \<open>
  What an operation does besides returning: the requests it sends and the pauses it makes
  (in milliseconds), in order.
\<close>

datatype event = Fetch request | Sleep nat

definition attempts :: "event list \<Rightarrow> nat" where
  "attempts evs = length (filter (\<lambda>e. case e of Fetch _ \<Rightarrow> True | Sleep _ \<Rightarrow> False) evs)"

text \<open>Decimal digits of a number, for \<open>${response.status}\<close> in a template string.\<close>

fun decimal :: "nat \<Rightarrow> string" where
  "decimal n = (if n < 10 then [char_of (48 + n)] else decimal (n div 10) @ [char_of (48 + n mod 10)])"

declare decimal.simps [simp del]

definition graph_request :: "string \<Rightarrow> string \<Rightarrow> string \<Rightarrow> json option \<Rightarrow> request" where
  "graph_request m token endpoint body =
     \<lparr> http_method = m,
       url = ''https://graph.microsoft.com/v1.0'' @ endpoint,
       authorization = ''Bearer '' @ token,
       if_match = None,
       request_body = body \<rparr>"

definition graph_api_error :: "response \<Rightarrow> failure" where
  "graph_api_error r = Failure (''Graph API error: '' @ decimal (status r) @ '' - '' @ body_text r)"

text \<open>
  \<open>graphGet\<close>, \<open>graphPost\<close> and \<open>_graphPatch\<close>. The first argument is the outcome of
  \<open>await this.getAccessToken()\<close>. Each sends one request; a response that is not \<open>ok\<close> is
  thrown as an \<open>Error\<close> carrying the status and the body text. \<open>graphPost\<close> and \<open>_graphPatch\<close>
  return \<open>{}\<close> for status 204 before parsing the body; \<open>graphGet\<close> has no such test.
\<close>

definition graphGet :: "failure + string \<Rightarrow> string \<Rightarrow> network \<Rightarrow> (failure + json) \<times> event list" where
  "graphGet token endpoint fetch =
     (case token of
        Inl e \<Rightarrow> (Inl e, [])
      | Inr tok \<Rightarrow>
          let req = graph_request ''GET'' tok endpoint None in
          (case fetch 1 req of
             Rejects e \<Rightarrow> (Inl (Failure e), [Fetch req])
           | Resolves r \<Rightarrow>
               if \<not> ok r then (Inl (graph_api_error r), [Fetch req])
               else (response_json r, [Fetch req])))"

definition graphPost ::
  "failure + string \<Rightarrow> string \<Rightarrow> json \<Rightarrow> network \<Rightarrow> (failure + json) \<times> event list" where
  "graphPost token endpoint body fetch =
     (case token of
        Inl e \<Rightarrow> (Inl e, [])
      | Inr tok \<Rightarrow>
          let req = graph_request ''POST'' tok endpoint (Some body) in
          (case fetch 1 req of
             Rejects e \<Rightarrow> (Inl (Failure e), [Fetch req])
           | Resolves r \<Rightarrow>
               if \<not> ok r then (Inl (graph_api_error r), [Fetch req])
               else if status r = 204 then (Inr (JObject []), [Fetch req])
               else (response_json r, [Fetch req])))"

definition graphPatch ::
  "failure + string \<Rightarrow> string \<Rightarrow> json \<Rightarrow> network \<Rightarrow> (failure + json) \<times> event list" where
  "graphPatch token endpoint body fetch =
     (case token of
        Inl e \<Rightarrow> (Inl e, [])
      | Inr tok \<Rightarrow>
          let req = graph_request ''PATCH'' tok endpoint (Some body) in
          (case fetch 1 req of
             Rejects e \<Rightarrow> (Inl (Failure e), [Fetch req])
           | Resolves r \<Rightarrow>
               if \<not> ok r then (Inl (graph_api_error r), [Fetch req])
               else if status r = 204 then (Inr (JObject []), [Fetch req])
               else (response_json r, [Fetch req])))"

text \<open>
  \<open>updatePlannerTask\<close> sends one PATCH with the caller's ETag in \<open>If-Match\<close>. Its whole body
  is inside \<open>try\<close>: a failed token acquisition, a rejected \<open>fetch\<close> and a response that is not
  \<open>ok\<close> are all caught, logged, and turned into the return value \<open>false\<close>.
\<close>

definition update_request :: "string \<Rightarrow> string \<Rightarrow> json \<Rightarrow> string \<Rightarrow> request" where
  "update_request token taskId updates etag =
     \<lparr> http_method = ''PATCH'',
       url = ''https://graph.microsoft.com/v1.0/planner/tasks/'' @ taskId,
       authorization = ''Bearer '' @ token,
       if_match = Some etag,
       request_body = Some updates \<rparr>"

definition updatePlannerTask ::
  "failure + string \<Rightarrow> string \<Rightarrow> json \<Rightarrow> string \<Rightarrow> network \<Rightarrow> bool \<times> event list" where
  "updatePlannerTask token taskId updates etag fetch =
     (case token of
        Inl e \<Rightarrow> (False, [])
      | Inr tok \<Rightarrow>
          let req = update_request tok taskId updates etag in
          (case fetch 1 req of
             Rejects e \<Rightarrow> (False, [Fetch req])
           | Resolves r \<Rightarrow> (ok r, [Fetch req])))"

text \<open>
  The repository holds a second revision of the class (the source text after the end of
  README_FIXES.md) whose \<open>graphGet\<close> and \<open>graphPost\<close> take \<open>retries = 3\<close> and loop:
  \<^verbatim>\<open>
  for (let attempt = 1; attempt <= retries; attempt++) {
    try {
      const response = await fetch(...);
      if (!response.ok) {
        lastError = new Error(`Graph API error: ${response.status}`);
        if (response.status >= 400 && response.status < 500 && response.status !== 429) {
          ...; throw lastError;
        }
        if (attempt < retries) { delay = Math.pow(2, attempt - 1) * 1000; sleep; continue; }
      }
      [POST only: if (response.status === 204) return {};]
      return response.json();
    } catch (error) {
      lastError = error;
      if (attempt < retries) { delay = Math.pow(2, attempt - 1) * 1000; sleep; }
    }
  }
  throw lastError;
  \<close>
  The \<open>throw\<close> for a terminal status is inside the \<open>try\<close>, so the \<open>catch\<close> below it receives
  it. On the last attempt a response that is not \<open>ok\<close> and not terminal skips the
  \<open>continue\<close> and reaches \<open>return response.json()\<close>. The flag says whether the 204 test is
  there (\<open>graphPost\<close>).
\<close>

definition backoff :: "nat \<Rightarrow> nat" where
  "backoff attempt = 2 ^ (attempt - 1) * 1000"

function retry_loop ::
  "bool \<Rightarrow> network \<Rightarrow> request \<Rightarrow> nat \<Rightarrow> nat \<Rightarrow> failure \<Rightarrow> (failure + json) \<times> event list" where
  "retry_loop post fetch req retries attempt lastError =
     (if attempt > retries then (Inl lastError, [])
      else
        let again = (\<lambda>err.
              if attempt < retries
              then (let (res, evs) = retry_loop post fetch req retries (attempt + 1) err
                    in (res, Sleep (backoff attempt) # evs))
              else retry_loop post fetch req retries (attempt + 1) err);
            (res, evs) =
              (case fetch attempt req of
                 Rejects e \<Rightarrow> again (Failure e)
               | Resolves r \<Rightarrow>
                   if \<not> ok r then
                     (if 400 \<le> status r \<and> status r < 500 \<and> status r \<noteq> 429
                      then again (Failure (''Graph API error: '' @ decimal (status r)))
                      else if attempt < retries
                      then again (Failure (''Graph API error: '' @ decimal (status r)))
                      else (response_json r, []))
                   else if post \<and> status r = 204 then (Inr (JObject []), [])
                   else (response_json r, []))
        in (res, Fetch req # evs))"
  by pat_completeness auto
termination
  by (relation "measure (\<lambda>(post, fetch, req, retries, attempt, lastError). retries + 1 - attempt)") auto

declare retry_loop.simps [simp del]

definition graphGet_retrying ::
  "failure + string \<Rightarrow> string \<Rightarrow> nat \<Rightarrow> network \<Rightarrow> (failure + json) \<times> event list" where
  "graphGet_retrying token endpoint retries fetch =
     (case token of
        Inl e \<Rightarrow> (Inl e, [])
      | Inr tok \<Rightarrow> retry_loop False fetch (graph_request ''GET'' tok endpoint None) retries 1 ThrownNull)"

definition graphPost_retrying ::
  "failure + string \<Rightarrow> string \<Rightarrow> json \<Rightarrow> nat \<Rightarrow> network \<Rightarrow> (failure + json) \<times> event list" where
  "graphPost_retrying token endpoint body retries fetch =
     (case token of
        Inl e \<Rightarrow> (Inl e, [])
      | Inr tok \<Rightarrow>
          retry_loop True fetch (graph_request ''POST'' tok endpoint (Some body)) retries 1 ThrownNull)"

text \<open>Networks and responses for the concrete instances below.\<close>

definition always :: "response \<Rightarrow> network" where
  "always r = (\<lambda>n req. Resolves r)"

definition unavailable :: response where
  \<open>unavailable = \<lparr> status = 503, body_text = ''{"error":"busy"}'',
                   body_json = Some (JObject [(''error'', JString ''busy'')]) \<rparr>\<close>


definition no_content :: response where
  "no_content = \<lparr> status = 204, body_text = [], body_json = None \<rparr>"

definition accepted :: response where
  "accepted = \<lparr> status = 202, body_text = [], body_json = None \<rparr>"

definition not_found :: response where
  \<open>not_found = \<lparr> status = 404, body_text = ''{"error":"NotFound"}'',
                  body_json = Some (JObject [(''error'', JString ''NotFound'')]) \<rparr>\<close>

definition precondition_failed :: response where
  \<open>precondition_failed = \<lparr> status = 412, body_text = ''{"error":"PreconditionFailed"}'',
                  body_json = Some (JObject [(''error'', JString ''PreconditionFailed'')]) \<rparr>\<close>

section \<open>Manager (src/agent/manager.ts, class ManagerPrompt; src/agent/prompt.ts)\<close>

text \<open>
  A thrown value is an \<open>Error\<close> with its message or some other value.
\<close>

datatype thrown = Error string | NonError

text \<open>
  The fields of \<open>MessageContext\<close> (src/utils/messageContext.ts) that the manager reads or
  writes: the text of the message, the conversation and its memory, and the time range.
\<close>

record MessageContext =
  message_text :: string
  conversationId :: string
  memory :: SqlJsKVStore
  startTime :: string
  endTime :: string

text \<open>
  A \<open>CapabilityDefinition\<close>: name, description for the manager prompt, and handler. A
  handler returns a string or throws.
\<close>

record CapabilityDefinition =
  capability_name :: string
  manager_desc :: string
  handler :: "MessageContext \<Rightarrow> thrown + string"

text \<open>
  \<open>generateManagerPrompt\<close>: the instructions for the model. The numbered list of names and
  the descriptions are computed from the capabilities; between them stands the fixed block
  of critical instructions. The fixed text before the list and after the descriptions
  contains characters outside ASCII and is a parameter here.
\<close>

definition newline :: char where
  "newline = char_of (10 :: nat)"

fun join :: "string \<Rightarrow> string list \<Rightarrow> string" where
  "join sep [] = []"
| "join sep [x] = x"
| "join sep (x # y # ys) = x @ sep @ join sep (y # ys)"

definition namesList :: "CapabilityDefinition list \<Rightarrow> string" where
  "namesList capabilities =
     join [newline]
       (map (\<lambda>(i, cap). decimal (i + 1) @ ''. **'' @ capability_name cap @ ''**'')
            (enumerate 0 capabilities))"

definition capabilityDescriptions :: "CapabilityDefinition list \<Rightarrow> string" where
  "capabilityDescriptions capabilities = join [newline] (map manager_desc capabilities)"

definition critical_instructions :: "string list" where
  \<open>critical_instructions =
     [''<CRITICAL INSTRUCTIONS>'',
      ''1. **ONLY call ONE capability per request**. Do not chain multiple capability calls.'',
      ''2. Analyze the request's intent and route it to the best-matching capability.'',
      ''3. **If the request includes a time expression**, call calculate_time_range first using the exact phrase (e.g., "last week", "past 2 days").'',
      ''4. If no capability applies, respond conversationally and describe what Collaborator *can* help with.'',
      ''5. **AFTER providing the response, STOP immediately**. Do not ask follow-up questions or continue.'']\<close>

definition generateManagerPrompt :: "string \<Rightarrow> string \<Rightarrow> CapabilityDefinition list \<Rightarrow> string" where
  "generateManagerPrompt before after capabilities =
     before @ namesList capabilities @ [newline, newline]
     @ join [newline] critical_instructions @ [newline, newline]
     @ ''<WHEN TO USE EACH CAPABILITY>'' @ [newline]
     @ ''Use the following descriptions to determine routing logic. Match based on intent, not just keywords.''
     @ [newline, newline] @ capabilityDescriptions capabilities @ [newline, newline] @ after"

text \<open>
  The functions that the manager registers on its \<open>ChatPrompt\<close>: \<open>createManagerPrompt\<close>
  registers \<open>calculate_time_range\<close> and \<open>clear_conversation_history\<close>, \<open>addCapabilities\<close> adds
  one \<open>delegate_to_\<close>name per capability, whose body calls that capability's handler.
\<close>

datatype registered = CalculateTimeRange | ClearConversationHistory | Delegate CapabilityDefinition

type_synonym ChatPrompt = "(string \<times> registered) list"

definition createManagerPrompt :: ChatPrompt where
  "createManagerPrompt =
     [(''calculate_time_range'', CalculateTimeRange),
      (''clear_conversation_history'', ClearConversationHistory)]"

definition addCapabilities :: "ChatPrompt \<Rightarrow> CapabilityDefinition list \<Rightarrow> ChatPrompt" where
  "addCapabilities prompt capabilities =
     prompt @ map (\<lambda>capability. (''delegate_to_'' @ capability_name capability, Delegate capability))
                  capabilities"

definition initialize :: "CapabilityDefinition list \<Rightarrow> ChatPrompt" where
  "initialize capabilities = addCapabilities createManagerPrompt capabilities"

text \<open>
  While a message is processed: the context, and the names of the capabilities whose
  handler has been called, in order.
\<close>

record run =
  message_context :: MessageContext
  invoked :: "string list"

text \<open>
  \<open>ChatPrompt.send\<close> and the model behind it are not code of this repository. What the
  model does for one message is an input here: the function calls it makes, in order (name
  and, for \<open>calculate_time_range\<close>, the phrase), and then its final message, or the error
  with which the call of the model fails. \<open>send\<close> runs the registered function for each
  call; an exception of a function leaves \<open>send\<close>; a call of a name that is not registered
  is taken to fail as well.
\<close>

datatype function_call = FunctionCall string string

record model_turn =
  function_calls :: "function_call list"
  final :: "thrown + string"

text \<open>
  The bodies of the registered functions. \<open>extractTimeRange\<close> (src/utils/utils.ts) is a
  parameter: it gives \<open>from\<close> and \<open>to\<close> or \<open>null\<close>.
\<close>

definition call_function ::
  "(string \<Rightarrow> (string \<times> string) option) \<Rightarrow> ChatPrompt \<Rightarrow> function_call \<Rightarrow> run
     \<Rightarrow> thrown option \<times> run" where
  "call_function extractTimeRange prompt call r =
     (case call of FunctionCall fname time_phrase \<Rightarrow>
        (case map_of prompt fname of
           None \<Rightarrow> (Some (Error (''Function not found: '' @ fname)), r)
         | Some CalculateTimeRange \<Rightarrow>
             let ctx = message_context r;
                 timeRange = extractTimeRange time_phrase;
                 ctx1 = ctx\<lparr> startTime := (case timeRange of Some (from, to) \<Rightarrow> from
                                                              | None \<Rightarrow> endTime ctx) \<rparr>;
                 ctx2 = ctx1\<lparr> endTime := (case timeRange of Some (from, to) \<Rightarrow> to
                                                             | None \<Rightarrow> endTime ctx1) \<rparr>
             in (None, r\<lparr> message_context := ctx2 \<rparr>)
         | Some ClearConversationHistory \<Rightarrow>
             (case clearConversation (memory (message_context r)) (conversationId (message_context r)) of
                Inl e \<Rightarrow> (Some (Error ''Database not initialized''), r)
              | Inr db \<Rightarrow> (None, r\<lparr> message_context := (message_context r)\<lparr> memory := db \<rparr> \<rparr>))
         | Some (Delegate capability) \<Rightarrow>
             (case handler capability (message_context r) of
                Inl e \<Rightarrow> (Some e, r\<lparr> invoked := invoked r @ [capability_name capability] \<rparr>)
              | Inr result \<Rightarrow> (None, r\<lparr> invoked := invoked r @ [capability_name capability] \<rparr>))))"

fun run_calls ::
  "(string \<Rightarrow> (string \<times> string) option) \<Rightarrow> ChatPrompt \<Rightarrow> function_call list \<Rightarrow> run
     \<Rightarrow> thrown option \<times> run" where
  "run_calls extractTimeRange prompt [] r = (None, r)"
| "run_calls extractTimeRange prompt (call # calls) r =
     (case call_function extractTimeRange prompt call r of
        (Some e, r') \<Rightarrow> (Some e, r')
      | (None, r') \<Rightarrow> run_calls extractTimeRange prompt calls r')"

definition send ::
  "(string \<Rightarrow> (string \<times> string) option) \<Rightarrow> ChatPrompt \<Rightarrow> model_turn \<Rightarrow> run \<Rightarrow> (thrown + string) \<times> run" where
  "send extractTimeRange prompt model r =
     (case run_calls extractTimeRange prompt (function_calls model) r of
        (Some e, r') \<Rightarrow> (Inl e, r')
      | (None, r') \<Rightarrow> (final model, r'))"

text \<open>
  \<open>processRequest\<close>. \<open>initialize\<close> loads the conversation's messages
  (\<open>this.context.memory.values()\<close>), which throws when the store has no database, and
  registers the functions; then the text is sent. The result is the \<open>response\<close> string,
  what was passed to \<open>logger.error\<close>, and the run. An empty or missing \<open>response.content\<close>
  becomes \<open>No response generated\<close>; in the \<open>catch\<close> the response is built from the message
  of the error.
\<close>

definition error_message :: "thrown \<Rightarrow> string" where
  "error_message e = (case e of Error m \<Rightarrow> m | NonError \<Rightarrow> ''Unknown error'')"

definition apology :: string where
  "apology = ''Sorry, I encountered an error processing your request: ''"

definition processRequest ::
  "(string \<Rightarrow> (string \<times> string) option) \<Rightarrow> CapabilityDefinition list \<Rightarrow> model_turn \<Rightarrow> MessageContext
     \<Rightarrow> string \<times> thrown list \<times> run" where
  "processRequest extractTimeRange capabilities model ctx =
     (case get (memory ctx) (conversationId ctx) of
        Inl e \<Rightarrow>
          (apology @ error_message (Error ''Database not initialized''),
           [Error ''Database not initialized''], \<lparr> message_context = ctx, invoked = [] \<rparr>)
      | Inr messages \<Rightarrow>
          (case send extractTimeRange (initialize capabilities) model \<lparr> message_context = ctx, invoked = [] \<rparr> of
             (Inr reply, r) \<Rightarrow>
               (if reply = [] then ''No response generated'' else reply, [], r)
           | (Inl e, r) \<Rightarrow> (apology @ error_message e, [e], r)))"


text \<open>Capabilities and model turns for the concrete instances below.\<close>

definition summarizer :: CapabilityDefinition where
  "summarizer = \<lparr> capability_name = ''summarizer'', manager_desc = ''**Summarizer**'',
                  handler = (\<lambda>ctx. Inr ''summary of the week'') \<rparr>"

definition planner :: CapabilityDefinition where
  "planner = \<lparr> capability_name = ''planner'', manager_desc = ''**Planner**'',
               handler = (\<lambda>ctx. Inr ''task created'') \<rparr>"

definition failing :: CapabilityDefinition where
  "failing = \<lparr> capability_name = ''search'', manager_desc = ''**Search**'',
               handler = (\<lambda>ctx. Inl (Error ''connect ECONNREFUSED 10.0.0.4:1433'')) \<rparr>"

definition inbound :: MessageContext where
  "inbound = \<lparr> message_text = ''summarize last week and create a task'', conversationId = ''conv'',
               memory = Some [], startTime = ''1'', endTime = ''2'' \<rparr>"

definition is_delegation :: "ChatPrompt \<Rightarrow> function_call \<Rightarrow> bool" where
  "is_delegation prompt call =
     (case call of FunctionCall fname arg \<Rightarrow>
        (case map_of prompt fname of Some (Delegate capability) \<Rightarrow> True | _ \<Rightarrow> False))"

section \<open>Properties of the storage\<close>

lemma sorted_select_asc: "sorted (map timestamp (select_asc p (map insert_row ms)))"
proof -
  have "map timestamp (select_asc p (map insert_row ms))
        = map col_timestamp (sort_key col_timestamp (filter p (map insert_row ms)))"
    unfolding select_asc_def
    by (simp add: insert_row_def filter_map comp_def)
  then show ?thesis
    by (simp add: sorted_sort_key)
qed

lemma slice_zero: "slice xs 0 = xs"
  by (simp add: slice_def)

lemma slice_neg: "0 < l \<Longrightarrow> slice xs (- l) = drop (length xs - nat l) xs"
  by (auto simp add: slice_def Let_def max_def nat_diff_distrib' intro: arg_cong)

lemma blob_insert_row: "blob (insert_row m) = m"
  by (simp add: insert_row_def)

lemma mset_select_asc:
  "mset (select_asc p (map insert_row ms)) = mset (filter (\<lambda>m. p (insert_row m)) ms)"
proof -
  have "mset (select_asc p (map insert_row ms))
        = image_mset blob (mset (filter p (map insert_row ms)))"
    by (simp add: select_asc_def)
  also have "filter p (map insert_row ms) = map insert_row (filter (\<lambda>m. p (insert_row m)) ms)"
    by (simp add: filter_map comp_def)
  also have "image_mset blob (mset (map insert_row (filter (\<lambda>m. p (insert_row m)) ms)))
             = mset (filter (\<lambda>m. p (insert_row m)) ms)"
    by (simp add: multiset.map_comp comp_def blob_insert_row)
  finally show ?thesis .
qed

subsection \<open>LIKE and substrings\<close>




















subsection \<open>Recent messages\<close>

text \<open>
  Claim C10. On a store filled by \<open>addMessages\<close>, \<open>get\<close> returns every record of the
  conversation in ascending timestamp order; \<open>getRecentMessages\<close> with limit 0 returns that
  entire history (\<open>slice(-0)\<close> is \<open>slice(0)\<close>), and with a positive limit it returns the last
  \<open>limit\<close> records of it (all of them if there are fewer), still in ascending order.
\<close>

theorem getRecentMessages_limit:
  "\<exists>history.
      get (Some (map insert_row ms)) c = Inr history
    \<and> mset history = mset (filter (\<lambda>m. or_empty (conversation_id m) = c) ms)
    \<and> sorted (map timestamp history)
    \<and> getRecentMessages (Some (map insert_row ms)) c (Some 0) = Inr history
    \<and> (0 < limit \<longrightarrow>
         getRecentMessages (Some (map insert_row ms)) c (Some limit)
           = Inr (drop (length history - nat limit) history)
       \<and> length (drop (length history - nat limit) history) = min (nat limit) (length history)
       \<and> sorted (map timestamp (drop (length history - nat limit) history)))"
proof -
  let ?db = "Some (map insert_row ms)"
  let ?h = "select_asc (\<lambda>r. col_conversation_id r = c) (map insert_row ms)"
  have g: "get ?db c = Inr ?h"
    by (simp add: get_def)
  have m: "mset ?h = mset (filter (\<lambda>m. or_empty (conversation_id m) = c) ms)"
    by (simp add: mset_select_asc insert_row_def)
  have s: "sorted (map timestamp ?h)"
    by (rule sorted_select_asc)
  have z: "getRecentMessages ?db c (Some 0) = Inr ?h"
    by (simp add: getRecentMessages_def g slice_zero)
  have p: "getRecentMessages ?db c (Some limit) = Inr (drop (length ?h - nat limit) ?h)"
    if "0 < limit"
    using that by (simp add: getRecentMessages_def g slice_neg)
  have l: "length (drop (length ?h - nat limit) ?h) = min (nat limit) (length ?h)"
    by auto
  have sd: "sorted (map timestamp (drop (length ?h - nat limit) ?h))"
    using s by (simp add: sorted_wrt_drop drop_map[symmetric] del: drop_map)
  show ?thesis
    using g m s z p l sd by blast
qed

theorem getRecentMessages_limit_witness:
  "(0::int) < 2
   \<and> getRecentMessages
       (Some (map insert_row [sample ''ann'' ''x'' ''3'', sample ''bob'' ''y'' ''1'', sample ''cy'' ''z'' ''2'']))
       ''conv'' (Some 2)
     = Inr [sample ''cy'' ''z'' ''2'', sample ''ann'' ''x'' ''3'']
   \<and> getRecentMessages
       (Some (map insert_row [sample ''ann'' ''x'' ''3'', sample ''bob'' ''y'' ''1'', sample ''cy'' ''z'' ''2'']))
       ''conv'' (Some 0)
     = Inr [sample ''bob'' ''y'' ''1'', sample ''cy'' ''z'' ''2'', sample ''ann'' ''x'' ''3'']"
  using getRecentMessages_limit
    [of "[sample ''ann'' ''x'' ''3'', sample ''bob'' ''y'' ''1'', sample ''cy'' ''z'' ''2'']" "''conv''" 2]
  by (simp add: getRecentMessages_def get_def select_asc_def insert_row_def sample_def or_empty_def
      slice_def)

subsection \<open>Filtered search\<close>






subsection \<open>Appending, reading a time range, clearing\<close>

lemma select_asc_nil: "(\<forall>r\<in>set rows. \<not> p r) \<Longrightarrow> select_asc p rows = []"
  by (simp add: select_asc_def filter_False)

lemma append_then_byTimeRange:
  assumes "A \<le> timestamp m" and "timestamp m \<le> B"
  shows "\<exists>db' before after.
      addMessages (Some (map insert_row ms)) [m] = Inr db'
    \<and> getMessagesByTimeRange (Some (map insert_row ms)) (or_empty (conversation_id m)) A B = Inr before
    \<and> getMessagesByTimeRange db' (or_empty (conversation_id m)) A B = Inr after
    \<and> sorted (map timestamp after)
    \<and> mset after = mset before + {#m#}
    \<and> count (mset after) m = count (mset ms) m + 1
    \<and> (m \<notin> set ms \<longrightarrow> count (mset after) m = 1)"
proof -
  let ?c = "or_empty (conversation_id m)"
  let ?p = "\<lambda>r. col_conversation_id r = ?c \<and> A \<le> col_timestamp r \<and> col_timestamp r \<le> B"
  let ?before = "select_asc ?p (map insert_row ms)"
  let ?after = "select_asc ?p (map insert_row (ms @ [m]))"
  have a: "addMessages (Some (map insert_row ms)) [m] = Inr (Some (map insert_row (ms @ [m])))"
    by (simp add: addMessages_def)
  have b: "getMessagesByTimeRange (Some (map insert_row ms)) ?c A B = Inr ?before"
    by (simp add: getMessagesByTimeRange_def)
  have c: "getMessagesByTimeRange (Some (map insert_row (ms @ [m]))) ?c A B = Inr ?after"
    by (simp add: getMessagesByTimeRange_def)
  have pm: "?p (insert_row m)"
    using assms by (simp add: insert_row_def)
  have s: "sorted (map timestamp ?after)"
    by (rule sorted_select_asc)
  have d: "mset ?after = mset ?before + {#m#}"
    unfolding mset_select_asc using pm by simp
  have "count (mset ?before) m = count (mset ms) m"
    unfolding mset_select_asc using pm by simp
  with d have e: "count (mset ?after) m = count (mset ms) m + 1"
    by simp
  then have f: "m \<notin> set ms \<longrightarrow> count (mset ?after) m = 1"
    by (simp add: count_eq_zero_iff)
  show ?thesis
    using a b c s d e f by blast
qed

lemma clear_then_read:
  assumes "keywords \<noteq> []"
  shows "\<exists>db'.
      clearConversation (Some (map insert_row ms)) c = Inr db'
    \<and> get db' c = Inr []
    \<and> getMessagesByTimeRange db' c A B = Inr []
    \<and> getRecentMessages db' c limit = Inr []
    \<and> getFilteredMessages unicode db' c keywords A B participants maxResults
        = (if limit_accepted (effective_limit maxResults) then Inr [] else Inl SqlDatatypeMismatch)
    \<and> countMessages db' c = Inr 0"
proof -
  let ?rows = "filter (\<lambda>r. col_conversation_id r \<noteq> c) (map insert_row ms)"
  have a: "clearConversation (Some (map insert_row ms)) c = Inr (Some ?rows)"
    by (simp add: clearConversation_def)
  have none: "\<forall>r\<in>set ?rows. \<not> (col_conversation_id r = c \<and> q r)" for q
    by simp
  have g: "get (Some ?rows) c = Inr []"
    unfolding get_def using select_asc_nil[of ?rows "\<lambda>r. col_conversation_id r = c"] by simp
  have t: "getMessagesByTimeRange (Some ?rows) c A B = Inr []"
    unfolding getMessagesByTimeRange_def
    using select_asc_nil[of ?rows "\<lambda>r. col_conversation_id r = c \<and> A \<le> col_timestamp r \<and> col_timestamp r \<le> B"]
    by simp
  have r: "getRecentMessages (Some ?rows) c limit = Inr []"
    by (simp add: getRecentMessages_def g slice_def)
  have f: "getFilteredMessages unicode (Some ?rows) c keywords A B participants maxResults
        = (if limit_accepted (effective_limit maxResults) then Inr [] else Inl SqlDatatypeMismatch)"
    using assms by (simp add: getFilteredMessages_def filter_False sql_limit_def)
  have n: "countMessages (Some ?rows) c = Inr 0"
    by (simp add: countMessages_def filter_False)
  show ?thesis using a g t r f n by blast
qed


text \<open>
  Claim C7, as the code has it. Appending a record whose timestamp lies in \<open>[A, B]\<close>
  (bounds inclusive, timestamps compared as strings) and then reading that range of the
  record's conversation returns an ascending sequence in which the record occurs once more
  than it was stored before, hence exactly once when no equal record was stored before.
  After \<open>clearConversation\<close>, reading all messages, a time range, the recent messages, or
  the filtered messages for at least one keyword returns the empty sequence, and the count
  is 0.
\<close>

theorem memory_round_trip:
  assumes "A \<le> timestamp m" and "timestamp m \<le> B" and "keywords \<noteq> []"
  shows "(\<exists>db' before after.
            addMessages (Some (map insert_row ms)) [m] = Inr db'
          \<and> getMessagesByTimeRange (Some (map insert_row ms)) (or_empty (conversation_id m)) A B
              = Inr before
          \<and> getMessagesByTimeRange db' (or_empty (conversation_id m)) A B = Inr after
          \<and> sorted (map timestamp after)
          \<and> mset after = mset before + {#m#}
          \<and> count (mset after) m = count (mset ms) m + 1
          \<and> (m \<notin> set ms \<longrightarrow> count (mset after) m = 1))
       \<and> (\<exists>db'.
            clearConversation (Some (map insert_row ms)) c = Inr db'
          \<and> get db' c = Inr []
          \<and> getMessagesByTimeRange db' c A B = Inr []
          \<and> getRecentMessages db' c limit = Inr []
          \<and> getFilteredMessages unicode db' c keywords A B participants maxResults
        = (if limit_accepted (effective_limit maxResults) then Inr [] else Inl SqlDatatypeMismatch)
          \<and> countMessages db' c = Inr 0)"
  using append_then_byTimeRange[OF assms(1,2)] clear_then_read[OF assms(3)]
  by (intro conjI)

theorem memory_round_trip_witness:
  "''1'' \<le> timestamp (sample ''ann'' ''hi'' ''5'') \<and> timestamp (sample ''ann'' ''hi'' ''5'') \<le> ''9''
   \<and> [''hi''] \<noteq> []
   \<and> sample ''ann'' ''hi'' ''5'' \<notin> set [sample ''bob'' ''yo'' ''4'']
   \<and> addMessages (Some (map insert_row [sample ''bob'' ''yo'' ''4''])) [sample ''ann'' ''hi'' ''5'']
       = Inr (Some (map insert_row [sample ''bob'' ''yo'' ''4'', sample ''ann'' ''hi'' ''5'']))
   \<and> (\<exists>after. getMessagesByTimeRange
          (Some (map insert_row [sample ''bob'' ''yo'' ''4'', sample ''ann'' ''hi'' ''5'']))
          ''conv'' ''1'' ''9'' = Inr after
        \<and> count (mset after) (sample ''ann'' ''hi'' ''5'') = 1)
   \<and> (\<exists>db'. clearConversation (Some (map insert_row [sample ''bob'' ''yo'' ''4''])) ''conv'' = Inr db'
        \<and> get db' ''conv'' = Inr []
        \<and> getFilteredMessages (map lower) db' ''conv'' [''hi''] ''1'' ''9'' None None = Inr [])"
proof -
  let ?m = "sample ''ann'' ''hi'' ''5''"
  have h1: "''1'' \<le> timestamp ?m" by (simp add: sample_def)
  have h2: "timestamp ?m \<le> ''9''" by (simp add: sample_def)
  have h3: "[''hi''] \<noteq> []" by simp
  have fresh: "?m \<notin> set [sample ''bob'' ''yo'' ''4'']" by (simp add: sample_def)
  have add: "addMessages (Some (map insert_row [sample ''bob'' ''yo'' ''4''])) [?m]
       = Inr (Some (map insert_row [sample ''bob'' ''yo'' ''4'', ?m]))"
    by (simp add: addMessages_def)
  have conv: "or_empty (conversation_id ?m) = ''conv''"
    by (simp add: sample_def or_empty_def)
  have lim: "limit_accepted (effective_limit None)"
    by (simp add: limit_accepted_def effective_limit_def)
  note inst = memory_round_trip[OF h1 h2 h3, of "[sample ''bob'' ''yo'' ''4'']" "''conv''" None
      "map lower" None None]
  from inst fresh add conv lim show ?thesis
    using h1 h2 h3 by (auto simp del: insert_iff)
qed

theorem memory_round_trip_counterexample:
  "addMessages (Some (map insert_row [sample ''ann'' ''hi'' ''5''])) [sample ''ann'' ''hi'' ''5'']
     = Inr (Some (map insert_row [sample ''ann'' ''hi'' ''5'', sample ''ann'' ''hi'' ''5'']))
   \<and> getMessagesByTimeRange
        (Some (map insert_row [sample ''ann'' ''hi'' ''5'', sample ''ann'' ''hi'' ''5'']))
        ''conv'' ''1'' ''9''
     = Inr [sample ''ann'' ''hi'' ''5'', sample ''ann'' ''hi'' ''5'']
   \<and> count_list [sample ''ann'' ''hi'' ''5'', sample ''ann'' ''hi'' ''5''] (sample ''ann'' ''hi'' ''5'') = 2
   \<and> clearConversation (Some (map insert_row [sample ''ann'' ''hi'' ''5''])) ''conv'' = Inr (Some [])
   \<and> getFilteredMessages (map lower) (Some []) ''conv'' [] ''1'' ''9'' None None = Inl SqlSyntaxError"
  by (simp add: addMessages_def getMessagesByTimeRange_def select_asc_def insert_row_def
      sample_def or_empty_def clearConversation_def getFilteredMessages_def)

section \<open>Properties of the Graph client\<close>

subsection \<open>Token cache\<close>

lemma cached_valid_token: "cached_valid client now \<Longrightarrow> \<exists>tok. accessToken client = Some tok"
  by (auto simp: cached_valid_def split: option.splits)

lemma getAccessToken_cached_iff:
  "snd (fst (getAccessToken client now msal now_acquired)) = (\<not> cached_valid client now)"
  by (auto simp: getAccessToken_def dest: cached_valid_token split: acquire_result.splits)


lemma getAccessToken_stores_expiry:
  assumes "\<not> cached_valid client now" and "tok \<noteq> []" and "E \<noteq> 0"
  shows "getAccessToken client now (AuthResult tok (Some (Some E))) now_acquired
           = ((Inr tok, True),
              client\<lparr> accessToken := Some tok,
                      tokenExpiry := Some (new_Date (now_acquired + E - 300000)) \<rparr>)"
  using assms by (simp add: getAccessToken_def expires_or_default_def)

text \<open>
  Claim C1 at a concrete input. The first call, at instant 1700000000000, finds the cache
  empty and acquires token \<open>tokA\<close>, which the provider lets expire one hour later, at
  \<open>E = 1700003600000\<close>. The code stores \<open>Date.now() + E - 300000\<close> as \<open>tokenExpiry\<close>, an
  instant decades after \<open>E\<close>. A second call at \<open>E\<close> itself, which is not before
  \<open>E - 300000\<close>, returns the cached \<open>tokA\<close> without asking the provider.
\<close>

theorem getAccessToken_serves_expired_token:
  "getAccessToken \<lparr>accessToken = None, tokenExpiry = None\<rparr> 1700000000000
       (AuthResult ''tokA'' (Some (Some 1700003600000))) 1700000000200
     = ((Inr ''tokA'', True),
        \<lparr>accessToken = Some ''tokA'', tokenExpiry = Some (Some 3400003300200)\<rparr>)
   \<and> \<not> (1700003600000 :: int) < 1700003600000 - 300000
   \<and> getAccessToken \<lparr>accessToken = Some ''tokA'', tokenExpiry = Some (Some 3400003300200)\<rparr>
       1700003600000 (AuthResult ''tokB'' (Some (Some 1700007200000))) 1700003600200
     = ((Inr ''tokA'', False),
        \<lparr>accessToken = Some ''tokA'', tokenExpiry = Some (Some 3400003300200)\<rparr>)"
  by (simp add: getAccessToken_def cached_valid_def expires_or_default_def new_Date_def)

subsection \<open>Requests\<close>

lemmas client_defs =
  graphGet_def graphPost_def graphPatch_def graph_request_def graph_api_error_def ok_def
  response_json_def always_def attempts_def

lemma loop_free_terminal_status:
  assumes "400 \<le> status r" and "status r \<le> 499" and "status r \<noteq> 429"
    and "\<And>req. fetch 1 req = Resolves r"
  shows "graphGet (Inr tok) endpoint fetch
           = (Inl (graph_api_error r), [Fetch (graph_request ''GET'' tok endpoint None)])
       \<and> graphPost (Inr tok) endpoint body fetch
           = (Inl (graph_api_error r), [Fetch (graph_request ''POST'' tok endpoint (Some body))])
       \<and> graphPatch (Inr tok) endpoint body fetch
           = (Inl (graph_api_error r), [Fetch (graph_request ''PATCH'' tok endpoint (Some body))])
       \<and> attempts (snd (graphGet (Inr tok) endpoint fetch)) = 1
       \<and> attempts (snd (graphPost (Inr tok) endpoint body fetch)) = 1
       \<and> attempts (snd (graphPatch (Inr tok) endpoint body fetch)) = 1"
  using assms by (simp add: graphGet_def graphPost_def graphPatch_def ok_def attempts_def)

text \<open>
  Claim C8 at a concrete input: requests for \<open>/planner/tasks/t1\<close> that are answered 404 every
  time. In the retrying revision, whose comment on this branch reads \<open>Don't retry on 4xx
  errors except 429\<close>, the terminal error is thrown inside the \<open>try\<close> of the loop and caught by
  its \<open>catch\<close>: \<open>graphGet\<close> and \<open>graphPost\<close> send three requests with pauses of 1000 and
  2000 ms, and the error they throw at the end does not carry the response body. The
  loop-free \<open>graphGet\<close> of src/services/graphClient.ts sends one request and throws an error
  with the status and the body.
\<close>

theorem terminal_status_retried:
  \<open>graphGet_retrying (Inr ''tok'') ''/planner/tasks/t1'' 3 (always not_found)
     = (Inl (Failure ''Graph API error: 404''),
        [Fetch (graph_request ''GET'' ''tok'' ''/planner/tasks/t1'' None), Sleep 1000,
         Fetch (graph_request ''GET'' ''tok'' ''/planner/tasks/t1'' None), Sleep 2000,
         Fetch (graph_request ''GET'' ''tok'' ''/planner/tasks/t1'' None)])
   \<and> attempts (snd (graphGet_retrying (Inr ''tok'') ''/planner/tasks/t1'' 3 (always not_found))) = 3
   \<and> graphPost_retrying (Inr ''tok'') ''/planner/tasks/t1'' (JObject []) 3 (always not_found)
     = (Inl (Failure ''Graph API error: 404''),
        [Fetch (graph_request ''POST'' ''tok'' ''/planner/tasks/t1'' (Some (JObject []))), Sleep 1000,
         Fetch (graph_request ''POST'' ''tok'' ''/planner/tasks/t1'' (Some (JObject []))), Sleep 2000,
         Fetch (graph_request ''POST'' ''tok'' ''/planner/tasks/t1'' (Some (JObject [])))])
   \<and> graphGet (Inr ''tok'') ''/planner/tasks/t1'' (always not_found)
     = (Inl (Failure ''Graph API error: 404 - {"error":"NotFound"}''),
        [Fetch (graph_request ''GET'' ''tok'' ''/planner/tasks/t1'' None)])\<close>
  by code_simp

text \<open>
  Claim C2 at a concrete input: a POST to \<open>/planner/tasks\<close> that is answered 503 every
  time. \<open>graphPost\<close> of src/services/graphClient.ts sends one request, makes no pause and
  throws. The retrying revision sends three requests with pauses of 1000 and 2000 ms, and
  then returns the parsed body of the third 503 response as its result instead of throwing.
\<close>

theorem graphPost_no_retry_on_503:
  \<open>graphPost (Inr ''tok'') ''/planner/tasks'' (JObject []) (always unavailable)
     = (Inl (Failure ''Graph API error: 503 - {"error":"busy"}''),
        [Fetch (graph_request ''POST'' ''tok'' ''/planner/tasks'' (Some (JObject [])))])
   \<and> graphPost_retrying (Inr ''tok'') ''/planner/tasks'' (JObject []) 3 (always unavailable)
     = (Inr (JObject [(''error'', JString ''busy'')]),
        [Fetch (graph_request ''POST'' ''tok'' ''/planner/tasks'' (Some (JObject []))), Sleep 1000,
         Fetch (graph_request ''POST'' ''tok'' ''/planner/tasks'' (Some (JObject []))), Sleep 2000,
         Fetch (graph_request ''POST'' ''tok'' ''/planner/tasks'' (Some (JObject [])))])\<close>
  by code_simp

text \<open>
  Claim C9 at concrete inputs. A GET answered 204 with an empty body fails with the
  \<open>SyntaxError\<close> of \<open>response.json()\<close>, and so does a POST answered 202 with an empty body
  (the answer of Graph's \<open>sendMail\<close>); a POST or PATCH answered 204 returns \<open>{}\<close>.
\<close>

theorem empty_success_body_not_mapped:
  "fst (graphGet (Inr ''tok'') ''/me'' (always no_content)) = Inl JsonSyntaxError
   \<and> fst (graphPost (Inr ''tok'') ''/users/bot/sendMail'' (JObject []) (always accepted))
       = Inl JsonSyntaxError
   \<and> fst (graphPost (Inr ''tok'') ''/users/bot/sendMail'' (JObject []) (always no_content))
       = Inr (JObject [])
   \<and> fst (graphPatch (Inr ''tok'') ''/planner/tasks/t1'' (JObject []) (always no_content))
       = Inr (JObject [])"
  by (simp add: client_defs no_content_def accepted_def)

text \<open>
  Claim C5, as the code has it. \<open>updatePlannerTask\<close> returns a Boolean and never throws. When
  the token was acquired it sends exactly one request, the PATCH of the task's URL with the
  caller's ETag in \<open>If-Match\<close>, and no request otherwise. It returns \<open>true\<close> exactly when the
  token was acquired and that request is answered with a status in 200..299, and \<open>false\<close> in
  every other case, whatever the status.
\<close>

theorem updatePlannerTask_boolean:
  "fst (updatePlannerTask token taskId updates etag fetch)
     = (\<exists>tok r. token = Inr tok
          \<and> fetch 1 (update_request tok taskId updates etag) = Resolves r \<and> ok r)
   \<and> attempts (snd (updatePlannerTask token taskId updates etag fetch)) \<le> 1
   \<and> snd (updatePlannerTask token taskId updates etag fetch)
     = (case token of
          Inl e \<Rightarrow> []
        | Inr tok \<Rightarrow>
            [Fetch \<lparr> http_method = ''PATCH'',
                     url = ''https://graph.microsoft.com/v1.0/planner/tasks/'' @ taskId,
                     authorization = ''Bearer '' @ tok,
                     if_match = Some etag,
                     request_body = Some updates \<rparr>])"
  by (auto simp: updatePlannerTask_def update_request_def attempts_def Let_def
      split: sum.splits fetch_result.splits)

theorem updatePlannerTask_boolean_witness:
  "fst (updatePlannerTask (Inr ''tok'') ''t1'' (JObject [(''title'', JString ''x'')]) ''W/1''
          (always no_content)) = True
   \<and> fst (updatePlannerTask (Inr ''tok'') ''t1'' (JObject [(''title'', JString ''x'')]) ''W/1''
          (always precondition_failed)) = False
   \<and> snd (updatePlannerTask (Inr ''tok'') ''t1'' (JObject [(''title'', JString ''x'')]) ''W/1''
          (always precondition_failed))
     = [Fetch \<lparr> http_method = ''PATCH'',
                url = ''https://graph.microsoft.com/v1.0/planner/tasks/t1'',
                authorization = ''Bearer tok'',
                if_match = Some ''W/1'',
                request_body = Some (JObject [(''title'', JString ''x'')]) \<rparr>]"
  using updatePlannerTask_boolean[of "Inr ''tok''" "''t1''" "JObject [(''title'', JString ''x'')]" "''W/1''" "always no_content"]
    updatePlannerTask_boolean[of "Inr ''tok''" "''t1''" "JObject [(''title'', JString ''x'')]" "''W/1''" "always precondition_failed"]
  by (simp add: always_def ok_def no_content_def precondition_failed_def)

theorem updatePlannerTask_counterexample:
  "updatePlannerTask (Inr ''tok'') ''t1'' (JObject [(''title'', JString ''x'')]) ''W/stale''
       (always precondition_failed)
     = (False, [Fetch (update_request ''tok'' ''t1'' (JObject [(''title'', JString ''x'')]) ''W/stale'')])
   \<and> updatePlannerTask (Inr ''tok'') ''missing'' (JObject [(''title'', JString ''x'')]) ''W/stale''
       (always not_found)
     = (False, [Fetch (update_request ''tok'' ''missing'' (JObject [(''title'', JString ''x'')]) ''W/stale'')])
   \<and> fst (updatePlannerTask (Inr ''tok'') ''t1'' (JObject [(''title'', JString ''x'')]) ''W/stale''
            (always precondition_failed))
     = fst (updatePlannerTask (Inr ''tok'') ''missing'' (JObject [(''title'', JString ''x'')]) ''W/stale''
            (always not_found))"
  by (simp add: updatePlannerTask_def always_def ok_def precondition_failed_def not_found_def)

subsection \<open>The retrying revision\<close>

text \<open>
  With \<open>retries = 3\<close>: when every response is 429 or of status 500 and above, three
  requests are sent with pauses of 1000 and 2000 ms and the outcome is
  \<open>response.json()\<close> of the third response; when every response is the same terminal
  status, three requests are sent as well.
\<close>

lemma retrying_exhausted:
  assumes "\<And>n req. \<exists>r. fetch n req = Resolves r \<and> (status r = 429 \<or> 500 \<le> status r)"
    and "fetch 3 req = Resolves r3"
  shows "retry_loop post fetch req 3 1 ThrownNull
           = (response_json r3, [Fetch req, Sleep 1000, Fetch req, Sleep 2000, Fetch req])"
proof -
  obtain r1 where r1: "fetch 1 req = Resolves r1" "status r1 = 429 \<or> 500 \<le> status r1"
    using assms(1) by blast
  obtain r2 where r2: "fetch 2 req = Resolves r2" "status r2 = 429 \<or> 500 \<le> status r2"
    using assms(1) by blast
  have r3: "status r3 = 429 \<or> 500 \<le> status r3"
    using assms(1)[of 3 req] assms(2) by auto
  have l3: "retry_loop post fetch req 3 3 e = (response_json r3, [Fetch req])" for e
    using r3 assms(2) by (subst retry_loop.simps) (auto simp: ok_def)
  have l2: "retry_loop post fetch req 3 2 e = (response_json r3, [Fetch req, Sleep 2000, Fetch req])" for e
    using r2 by (subst retry_loop.simps) (auto simp: ok_def l3 backoff_def)
  show ?thesis
    using r1 by (subst retry_loop.simps) (auto simp: ok_def l2 backoff_def numeral_2_eq_2[symmetric])
qed

lemma retrying_terminal_status:
  assumes "\<And>n req. fetch n req = Resolves r" and "400 \<le> status r" and "status r < 500"
    and "status r \<noteq> 429"
  shows "retry_loop post fetch req 3 1 ThrownNull
           = (Inl (Failure (''Graph API error: '' @ decimal (status r))),
              [Fetch req, Sleep 1000, Fetch req, Sleep 2000, Fetch req])"
proof -
  have l4: "retry_loop post fetch req 3 4 e = (Inl e, [])" for e
    by (subst retry_loop.simps) simp
  have l3: "retry_loop post fetch req 3 3 e
      = (Inl (Failure (''Graph API error: '' @ decimal (status r))), [Fetch req])" for e
    using assms by (subst retry_loop.simps) (simp add: ok_def l4)
  have l2: "retry_loop post fetch req 3 2 e
      = (Inl (Failure (''Graph API error: '' @ decimal (status r))), [Fetch req, Sleep 2000, Fetch req])" for e
    using assms by (subst retry_loop.simps) (simp add: ok_def l3 backoff_def)
  show ?thesis
    using assms by (subst retry_loop.simps) (simp add: ok_def l2 backoff_def numeral_2_eq_2[symmetric])
qed

section \<open>Properties of the manager\<close>

lemma call_function_invoked:
  "call_function ex prompt call r = (res, r') \<Longrightarrow>
   length (invoked r') = length (invoked r) + (if is_delegation prompt call then 1 else 0)"
  by (auto simp: call_function_def is_delegation_def Let_def
      split: function_call.splits option.splits registered.splits sum.splits)

lemma run_calls_invoked:
  "run_calls ex prompt calls r = (res, r') \<Longrightarrow>
   length (invoked r') \<le> length (invoked r) + length (filter (is_delegation prompt) calls)
   \<and> (res = None \<longrightarrow>
        length (invoked r') = length (invoked r) + length (filter (is_delegation prompt) calls))"
proof (induction calls arbitrary: r)
  case Nil
  then show ?case by simp
next
  case (Cons call calls)
  obtain e r1 where c: "call_function ex prompt call r = (e, r1)"
    by (cases "call_function ex prompt call r")
  note len = call_function_invoked[OF c]
  show ?case
  proof (cases e)
    case None
    with Cons.prems c have "run_calls ex prompt calls r1 = (res, r')" by simp
    from Cons.IH[OF this] len show ?thesis by auto
  next
    case (Some err)
    with Cons.prems c have "res = Some err" "r' = r1" by simp_all
    with len show ?thesis by auto
  qed
qed

lemma delegations_bound:
  "\<exists>reply logged r.
      processRequest ex capabilities model ctx = (reply, logged, r)
    \<and> reply \<noteq> []
    \<and> length (invoked r)
        \<le> length (filter (is_delegation (initialize capabilities)) (function_calls model))
    \<and> (logged = [] \<longrightarrow>
         length (invoked r)
           = length (filter (is_delegation (initialize capabilities)) (function_calls model)))
    \<and> (length (filter (is_delegation (initialize capabilities)) (function_calls model)) \<le> 1
         \<longrightarrow> length (invoked r) \<le> 1)"
proof (cases "get (memory ctx) (conversationId ctx)")
  case (Inl e)
  then show ?thesis
    by (simp add: processRequest_def apology_def)
next
  case (Inr messages)
  let ?r0 = "\<lparr> message_context = ctx, invoked = [] \<rparr>"
  obtain res r where rc: "run_calls ex (initialize capabilities) (function_calls model) ?r0 = (res, r)"
    by (cases "run_calls ex (initialize capabilities) (function_calls model) ?r0")
  note inv = run_calls_invoked[OF rc]
  show ?thesis
  proof (cases res)
    case None
    then show ?thesis
      using Inr rc inv
      by (cases "final model") (auto simp: processRequest_def send_def apology_def)
  next
    case (Some err)
    then show ?thesis
      using Inr rc inv by (auto simp: processRequest_def send_def apology_def)
  qed
qed


lemma prompt_has_single_call_instruction:
  "sublist ''1. **ONLY call ONE capability per request**. Do not chain multiple capability calls.''
     (generateManagerPrompt before after capabilities)"
proof -
  let ?line = "''1. **ONLY call ONE capability per request**. Do not chain multiple capability calls.''"
  have "join [newline] critical_instructions
        = (''<CRITICAL INSTRUCTIONS>'' @ [newline]) @ ?line @ ([newline] @ join [newline] (drop 2 critical_instructions))"
    by (simp add: critical_instructions_def)
  then have "generateManagerPrompt before after capabilities
        = (before @ namesList capabilities @ [newline, newline] @ ''<CRITICAL INSTRUCTIONS>'' @ [newline])
          @ ?line
          @ ([newline] @ join [newline] (drop 2 critical_instructions) @ [newline, newline]
             @ ''<WHEN TO USE EACH CAPABILITY>'' @ [newline]
             @ ''Use the following descriptions to determine routing logic. Match based on intent, not just keywords.''
             @ [newline, newline] @ capabilityDescriptions capabilities @ [newline, newline] @ after)"
    unfolding generateManagerPrompt_def by (simp only: append_assoc)
  then show ?thesis
    by (metis sublist_appendI)
qed

text \<open>
  Claim C3, as the code has it. The instructions that the manager gives to the model
  contain the sentence that only one capability may be called per request; the code itself
  sets no bound. It calls one capability handler for each \<open>delegate_to_\<close> call that the
  model makes (until a function throws), so it calls at most one handler when the model
  makes at most one such call. The reply of \<open>processRequest\<close> is never empty.
\<close>

theorem handlers_follow_delegations:
  "sublist ''1. **ONLY call ONE capability per request**. Do not chain multiple capability calls.''
     (generateManagerPrompt before after capabilities)
   \<and> (\<exists>reply logged r.
        processRequest ex capabilities model ctx = (reply, logged, r)
      \<and> reply \<noteq> []
      \<and> length (invoked r)
          \<le> length (filter (is_delegation (initialize capabilities)) (function_calls model))
      \<and> (logged = [] \<longrightarrow>
           length (invoked r)
             = length (filter (is_delegation (initialize capabilities)) (function_calls model)))
      \<and> (length (filter (is_delegation (initialize capabilities)) (function_calls model)) \<le> 1
           \<longrightarrow> length (invoked r) \<le> 1))"
  using prompt_has_single_call_instruction delegations_bound
  by (intro conjI)

lemmas manager_defs =
  processRequest_def send_def initialize_def addCapabilities_def createManagerPrompt_def
  call_function_def is_delegation_def get_def select_asc_def apology_def error_message_def

theorem handlers_follow_delegations_witness:
  "length (filter (is_delegation (initialize [summarizer, planner]))
             [FunctionCall ''delegate_to_summarizer'' []]) \<le> 1
   \<and> processRequest (\<lambda>phrase. None) [summarizer, planner]
        \<lparr> function_calls = [FunctionCall ''delegate_to_summarizer'' []],
          final = Inr ''summary of the week'' \<rparr> inbound
      = (''summary of the week'', [], \<lparr> message_context = inbound, invoked = [''summarizer''] \<rparr>)"
  using handlers_follow_delegations[of "[]" "[]" "[summarizer, planner]" "\<lambda>phrase. None"
      "\<lparr> function_calls = [FunctionCall ''delegate_to_summarizer'' []],
          final = Inr ''summary of the week'' \<rparr>" inbound]
  by (simp add: manager_defs summarizer_def planner_def inbound_def)

theorem handlers_follow_delegations_counterexample:
  "processRequest (\<lambda>phrase. None) [summarizer, planner]
        \<lparr> function_calls = [FunctionCall ''delegate_to_summarizer'' [],
                            FunctionCall ''delegate_to_planner'' []],
          final = Inr ''done'' \<rparr> inbound
      = (''done'', [], \<lparr> message_context = inbound, invoked = [''summarizer'', ''planner''] \<rparr>)
   \<and> length [''summarizer'', ''planner''] = 2"
  by (simp add: manager_defs summarizer_def planner_def inbound_def)

lemma run_calls_append:
  "run_calls ex prompt pre r = (None, r1) \<Longrightarrow>
   run_calls ex prompt (pre @ calls) r = run_calls ex prompt calls r1"
proof (induction pre arbitrary: r)
  case Nil
  then show ?case by simp
next
  case (Cons call pre)
  then show ?case
    by (cases "call_function ex prompt call r") (auto split: option.splits)
qed

text \<open>
  Claim C4, as the code has it. Every failure inside \<open>processRequest\<close> ends the same way:
  the error is passed to \<open>logger.error\<close> and the reply is the text
  \<open>Sorry, I encountered an error processing your request: \<close> followed by the message of the
  error (\<open>Unknown error\<close> for a thrown value that is not an \<open>Error\<close>); nothing is retried.
  This holds when the messages cannot be loaded, for every \<open>send\<close> that fails, in particular
  when a capability handler throws after any number of successful function calls, and when
  the call of the model fails after all its function calls succeeded. When \<open>send\<close> returns,
  nothing is logged and the reply is the content, or \<open>No response generated\<close>.
\<close>

theorem failure_reply_is_error_message:
  "(get (memory ctx) (conversationId ctx) = Inl err \<longrightarrow>
      processRequest ex capabilities model ctx
        = (apology @ ''Database not initialized'', [Error ''Database not initialized''],
           \<lparr> message_context = ctx, invoked = [] \<rparr>))
   \<and> (get (memory ctx) (conversationId ctx) = Inr messages \<longrightarrow>
        (send ex (initialize capabilities) model \<lparr> message_context = ctx, invoked = [] \<rparr> = (Inl e, r)
           \<longrightarrow> processRequest ex capabilities model ctx = (apology @ error_message e, [e], r))
      \<and> (send ex (initialize capabilities) model \<lparr> message_context = ctx, invoked = [] \<rparr>
             = (Inr reply, r)
           \<longrightarrow> processRequest ex capabilities model ctx
                 = (if reply = [] then ''No response generated'' else reply, [], r))
      \<and> (function_calls model = pre @ FunctionCall (''delegate_to_'' @ capability_name cap) arg # rest
           \<and> run_calls ex (initialize capabilities) pre \<lparr> message_context = ctx, invoked = [] \<rparr>
               = (None, r1)
           \<and> map_of (initialize capabilities) (''delegate_to_'' @ capability_name cap)
               = Some (Delegate cap)
           \<and> handler cap (message_context r1) = Inl e
           \<longrightarrow> processRequest ex capabilities model ctx
                 = (apology @ error_message e, [e],
                    r1\<lparr> invoked := invoked r1 @ [capability_name cap] \<rparr>))
      \<and> (run_calls ex (initialize capabilities) (function_calls model)
               \<lparr> message_context = ctx, invoked = [] \<rparr> = (None, r1)
           \<and> final model = Inl e
           \<longrightarrow> processRequest ex capabilities model ctx = (apology @ error_message e, [e], r1)))"
proof (intro conjI impI)
  assume "get (memory ctx) (conversationId ctx) = Inl err"
  then show "processRequest ex capabilities model ctx
        = (apology @ ''Database not initialized'', [Error ''Database not initialized''],
           \<lparr> message_context = ctx, invoked = [] \<rparr>)"
    by (simp add: processRequest_def error_message_def)
next
  assume "get (memory ctx) (conversationId ctx) = Inr messages"
    and "send ex (initialize capabilities) model \<lparr> message_context = ctx, invoked = [] \<rparr> = (Inl e, r)"
  then show "processRequest ex capabilities model ctx = (apology @ error_message e, [e], r)"
    by (simp add: processRequest_def)
next
  assume "get (memory ctx) (conversationId ctx) = Inr messages"
    and "send ex (initialize capabilities) model \<lparr> message_context = ctx, invoked = [] \<rparr>
             = (Inr reply, r)"
  then show "processRequest ex capabilities model ctx
                 = (if reply = [] then ''No response generated'' else reply, [], r)"
    by (simp add: processRequest_def)
next
  let ?call = "FunctionCall (''delegate_to_'' @ capability_name cap) arg"
  assume g: "get (memory ctx) (conversationId ctx) = Inr messages"
    and h: "function_calls model = pre @ ?call # rest
           \<and> run_calls ex (initialize capabilities) pre \<lparr> message_context = ctx, invoked = [] \<rparr>
               = (None, r1)
           \<and> map_of (initialize capabilities) (''delegate_to_'' @ capability_name cap)
               = Some (Delegate cap)
           \<and> handler cap (message_context r1) = Inl e"
  from h have "call_function ex (initialize capabilities) ?call r1
        = (Some e, r1\<lparr> invoked := invoked r1 @ [capability_name cap] \<rparr>)"
    by (simp add: call_function_def)
  then have "run_calls ex (initialize capabilities) (?call # rest) r1
        = (Some e, r1\<lparr> invoked := invoked r1 @ [capability_name cap] \<rparr>)"
    by simp
  with h have "run_calls ex (initialize capabilities) (function_calls model)
          \<lparr> message_context = ctx, invoked = [] \<rparr>
        = (Some e, r1\<lparr> invoked := invoked r1 @ [capability_name cap] \<rparr>)"
    by (simp add: run_calls_append)
  then show "processRequest ex capabilities model ctx
                 = (apology @ error_message e, [e],
                    r1\<lparr> invoked := invoked r1 @ [capability_name cap] \<rparr>)"
    using g by (simp add: processRequest_def send_def)
next
  assume "get (memory ctx) (conversationId ctx) = Inr messages"
    and "run_calls ex (initialize capabilities) (function_calls model)
               \<lparr> message_context = ctx, invoked = [] \<rparr> = (None, r1)
           \<and> final model = Inl e"
  then show "processRequest ex capabilities model ctx = (apology @ error_message e, [e], r1)"
    by (simp add: processRequest_def send_def)
qed

theorem failure_reply_is_error_message_witness:
  "get (memory inbound) (conversationId inbound) = Inr []
   \<and> run_calls (\<lambda>phrase. Some (''3'', ''4'')) (initialize [summarizer, failing])
        [FunctionCall ''calculate_time_range'' ''last week'']
        \<lparr> message_context = inbound, invoked = [] \<rparr>
      = (None, \<lparr> message_context = inbound\<lparr> startTime := ''3'', endTime := ''4'' \<rparr>, invoked = [] \<rparr>)
   \<and> processRequest (\<lambda>phrase. Some (''3'', ''4'')) [summarizer, failing]
        \<lparr> function_calls = [FunctionCall ''calculate_time_range'' ''last week'',
                            FunctionCall ''delegate_to_search'' []],
          final = Inr ''unused'' \<rparr> inbound
      = (''Sorry, I encountered an error processing your request: connect ECONNREFUSED 10.0.0.4:1433'',
         [Error ''connect ECONNREFUSED 10.0.0.4:1433''],
         \<lparr> message_context = inbound\<lparr> startTime := ''3'', endTime := ''4'' \<rparr>,
           invoked = [''search''] \<rparr>)"
proof -
  let ?ex = "\<lambda>phrase :: string. Some (''3'', ''4'')"
  let ?model = "\<lparr> function_calls = [FunctionCall ''calculate_time_range'' ''last week'',
                            FunctionCall ''delegate_to_search'' []],
          final = Inr ''unused'' \<rparr>"
  let ?r1 = "\<lparr> message_context = inbound\<lparr> startTime := ''3'', endTime := ''4'' \<rparr>, invoked = [] \<rparr>"
  have g: "get (memory inbound) (conversationId inbound) = Inr []"
    by (simp add: inbound_def get_def select_asc_def)
  have c: "function_calls ?model
      = [FunctionCall ''calculate_time_range'' ''last week'']
        @ FunctionCall (''delegate_to_'' @ capability_name failing) [] # []"
    by (simp add: failing_def)
  have p: "run_calls ?ex (initialize [summarizer, failing])
        [FunctionCall ''calculate_time_range'' ''last week'']
        \<lparr> message_context = inbound, invoked = [] \<rparr> = (None, ?r1)"
    by (simp add: manager_defs summarizer_def failing_def Let_def)
  have m: "map_of (initialize [summarizer, failing]) (''delegate_to_'' @ capability_name failing)
      = Some (Delegate failing)"
    by (simp add: manager_defs summarizer_def failing_def)
  have t: "handler failing (message_context ?r1) = Inl (Error ''connect ECONNREFUSED 10.0.0.4:1433'')"
    by (simp add: failing_def)
  note inst = failure_reply_is_error_message[where ctx = inbound and messages = "[]"
      and model = ?model and ex = ?ex and capabilities = "[summarizer, failing]"
      and pre = "[FunctionCall ''calculate_time_range'' ''last week'']" and cap = failing
      and arg = "[]" and rest = "[]" and ?r1.0 = ?r1
      and e = "Error ''connect ECONNREFUSED 10.0.0.4:1433''"]
  from inst g c p m t
  have "processRequest ?ex [summarizer, failing] ?model inbound
      = (apology @ error_message (Error ''connect ECONNREFUSED 10.0.0.4:1433''),
         [Error ''connect ECONNREFUSED 10.0.0.4:1433''],
         ?r1\<lparr> invoked := invoked ?r1 @ [capability_name failing] \<rparr>)"
    by blast
  then show ?thesis
    using g p by (simp add: apology_def error_message_def failing_def)
qed

theorem failure_reply_counterexample:
  "processRequest (\<lambda>phrase. None) [summarizer, failing]
        \<lparr> function_calls = [FunctionCall ''delegate_to_search'' []], final = Inr ''unused'' \<rparr> inbound
      = (''Sorry, I encountered an error processing your request: connect ECONNREFUSED 10.0.0.4:1433'',
         [Error ''connect ECONNREFUSED 10.0.0.4:1433''],
         \<lparr> message_context = inbound, invoked = [''search''] \<rparr>)
   \<and> sublist ''connect ECONNREFUSED 10.0.0.4:1433''
        (fst (processRequest (\<lambda>phrase. None) [summarizer, failing]
          \<lparr> function_calls = [FunctionCall ''delegate_to_search'' []], final = Inr ''unused'' \<rparr> inbound))"
proof -
  have a: "processRequest (\<lambda>phrase. None) [summarizer, failing]
        \<lparr> function_calls = [FunctionCall ''delegate_to_search'' []], final = Inr ''unused'' \<rparr> inbound
      = (''Sorry, I encountered an error processing your request: '' @ ''connect ECONNREFUSED 10.0.0.4:1433'',
         [Error ''connect ECONNREFUSED 10.0.0.4:1433''],
         \<lparr> message_context = inbound, invoked = [''search''] \<rparr>)"
    by (simp add: manager_defs summarizer_def failing_def inbound_def)
  have b: "sublist ''connect ECONNREFUSED 10.0.0.4:1433''
     (''Sorry, I encountered an error processing your request: '' @ ''connect ECONNREFUSED 10.0.0.4:1433'')"
    by (rule sublist_append_leftI)
  show ?thesis
    using a b by (simp del: sublist_code)
qed

end
